theory Spec2Isabelle
  imports Main
begin

section \<open>The backend registry: frontend.go\<close>

subsection \<open>Data\<close>

text \<open>
  \<^verbatim>\<open>LoadBalancingStrategy\<close> is an interface whose declaration and whose round-robin
  implementation live outside \<^verbatim>\<open>frontend.go\<close>. The Frontend only calls its three
  methods, so the strategy is a parameter: a state of some type \<open>'s\<close> together with
  the three methods acting on that state.
\<close>

record 's LoadBalancingStrategy =
  Next :: "'s \<Rightarrow> string \<times> 's"
  AddBackend :: "string \<Rightarrow> 's \<Rightarrow> 's"
  RemoveBackend :: "string \<Rightarrow> 's \<Rightarrow> 's"

text \<open>
  The struct \<^verbatim>\<open>Frontend\<close>. The field \<^verbatim>\<open>listener\<close> is a network resource that none
  of the registry methods reads; the field \<^verbatim>\<open>lock\<close> is modelled in the section on
  interleavings, where method bodies are split into atomic steps. In this section every
  method runs from its first statement to its last without interruption.
\<close>

record 's Frontend =
  appId :: string
  backends :: "string list"
  port :: string
  strategy :: 's

text \<open>\<^verbatim>\<open>NewFrontend\<close>; \<open>rr\<close> is the value of \<^verbatim>\<open>RoundRobinStrategy()\<close>.\<close>

definition NewFrontend :: "'s \<Rightarrow> string \<Rightarrow> string \<Rightarrow> string list \<Rightarrow> 's Frontend" where
  "NewFrontend rr a p bs = \<lparr>appId = a, backends = bs, port = p, strategy = rr\<rparr>"

subsection \<open>Methods\<close>

definition Lookup :: "'s LoadBalancingStrategy \<Rightarrow> 's Frontend \<Rightarrow> string \<times> 's Frontend" where
  "Lookup S f = (case Next S (strategy f) of (node, st) \<Rightarrow> (node, f\<lparr>strategy := st\<rparr>))"

definition Frontend_AddBackend ::
  "'s LoadBalancingStrategy \<Rightarrow> string \<Rightarrow> 's Frontend \<Rightarrow> 's Frontend" where
  "Frontend_AddBackend S backend f =
     f\<lparr>backends := backends f @ [backend],
       strategy := AddBackend S backend (strategy f)\<rparr>"

text \<open>
  The loop of \<^verbatim>\<open>findIdxOfBackend\<close>: \<open>idx\<close> is the index of the head of the part of
  the slice still to be visited. The result is Go's pair \<^verbatim>\<open>(int, bool)\<close>.
\<close>

fun findIdxFrom :: "string list \<Rightarrow> string \<Rightarrow> int \<Rightarrow> int \<times> bool" where
  "findIdxFrom [] backend idx = (- 1, False)"
| "findIdxFrom (node # rest) backend idx =
     (if node = backend then (idx, True) else findIdxFrom rest backend (idx + 1))"

definition findIdxOfBackend :: "'s Frontend \<Rightarrow> string \<Rightarrow> int \<times> bool" where
  "findIdxOfBackend f backend = findIdxFrom (backends f) backend 0"

text \<open>The line that \<^verbatim>\<open>RemoveBackend\<close> hands to \<^verbatim>\<open>log.Printf\<close>.\<close>

definition warnNotPart :: "string \<Rightarrow> string \<Rightarrow> string" where
  "warnNotPart backend a =
     ''[WARN] Backend '' @ backend @ '' is not part of this frontend - '' @ a"

text \<open>
  \<^verbatim>\<open>RemoveBackend\<close> returns the Frontend after the call and the lines it logged.
  \<^verbatim>\<open>append(f.backends[:idx], f.backends[idx+1:]...)\<close> is the slice without position
  \<open>idx\<close>; both slice expressions are in range whenever \<open>found\<close> holds.
\<close>

definition Frontend_RemoveBackend ::
  "'s LoadBalancingStrategy \<Rightarrow> string \<Rightarrow> 's Frontend \<Rightarrow> 's Frontend \<times> string list" where
  "Frontend_RemoveBackend S backend f =
     (case findIdxOfBackend f backend of
        (idx, found) \<Rightarrow>
          (if found
           then (f\<lparr>backends := take (nat idx) (backends f) @ drop (nat (idx + 1)) (backends f),
                    strategy := RemoveBackend S backend (strategy f)\<rparr>, [])
           else (f\<lparr>strategy := RemoveBackend S backend (strategy f)\<rparr>,
                 [warnNotPart backend (appId f)])))"

definition LenOfBackends :: "'s Frontend \<Rightarrow> int" where
  "LenOfBackends f = int (length (backends f))"

subsection \<open>Sequences of calls\<close>

datatype call = Add string | Remove string

fun exec1 :: "'s LoadBalancingStrategy \<Rightarrow> call \<Rightarrow> 's Frontend \<Rightarrow> 's Frontend" where
  "exec1 S (Add b) f = Frontend_AddBackend S b f"
| "exec1 S (Remove b) f = fst (Frontend_RemoveBackend S b f)"

fun exec :: "'s LoadBalancingStrategy \<Rightarrow> call list \<Rightarrow> 's Frontend \<Rightarrow> 's Frontend" where
  "exec S [] f = f"
| "exec S (c # cs) f = exec S cs (exec1 S c f)"

text \<open>The number of \<^verbatim>\<open>AddBackend\<close> calls in a sequence.\<close>

fun adds :: "call list \<Rightarrow> nat" where
  "adds [] = 0"
| "adds (Add b # cs) = Suc (adds cs)"
| "adds (Remove b # cs) = adds cs"

text \<open>
  The number of removes of a sequence that matched a present backend. It is counted on
  the backends that are present, without reference to the methods above: \<open>present\<close> is
  the collection of backends before the sequence, an add puts one more occurrence of its
  node into it, and a remove whose node is present matches and takes one occurrence out.
\<close>

fun specMatched :: "call list \<Rightarrow> string list \<Rightarrow> nat" where
  "specMatched [] present = 0"
| "specMatched (Add b # cs) present = specMatched cs (present @ [b])"
| "specMatched (Remove b # cs) present =
     (if b \<in> set present then Suc (specMatched cs (remove1 b present))
      else specMatched cs present)"

section \<open>Interleavings of registry calls\<close>

text \<open>
  The methods of one Frontend are called from several goroutines: the accept loop calls
  \<^verbatim>\<open>Lookup\<close>, the router calls \<^verbatim>\<open>AddBackend\<close> and \<^verbatim>\<open>RemoveBackend\<close>. To speak about
  \<^verbatim>\<open>f.lock\<close>, each method body is split into the steps it performs in order, and a
  scheduler picks which task takes its next step. A step is at least as coarse as one
  statement of the source, so every run of this model is a run of the program.
\<close>

datatype step =
    LockStep
  | UnlockStep
  | AppendBackends string
  | DeleteBackends string
  | StrategyAdd string
  | StrategyRemove string
  | StrategyNext
  | ReadLen

text \<open>
  The bodies, read off the source: \<^verbatim>\<open>Lookup\<close> is the single statement
  \<^verbatim>\<open>return f.strategy.Next()\<close>; the other three begin with \<^verbatim>\<open>f.lock.Lock()\<close> and,
  through \<^verbatim>\<open>defer\<close>, end with \<^verbatim>\<open>f.lock.Unlock()\<close>.
\<close>

definition Lookup_body :: "step list" where
  "Lookup_body = [StrategyNext]"

definition AddBackend_body :: "string \<Rightarrow> step list" where
  "AddBackend_body backend = [LockStep, AppendBackends backend, StrategyAdd backend, UnlockStep]"

definition RemoveBackend_body :: "string \<Rightarrow> step list" where
  "RemoveBackend_body backend =
     [LockStep, DeleteBackends backend, StrategyRemove backend, UnlockStep]"

definition LenOfBackends_body :: "step list" where
  "LenOfBackends_body = [LockStep, ReadLen, UnlockStep]"

text \<open>
  A configuration: the shared Frontend, the task holding \<^verbatim>\<open>f.lock\<close> (if any), the steps
  each task still has to take, and what the calls have returned so far (task and value).
\<close>

datatype returned = GotNode string | GotLen int

record 's config =
  frontend :: "'s Frontend"
  holder :: "nat option"
  tasks :: "step list list"
  returns :: "(nat \<times> returned) list"

text \<open>
  Task \<open>i\<close> takes its next step. \<open>None\<close>: the task has finished, or it is blocked in
  \<^verbatim>\<open>Lock()\<close> because the mutex is held. In the bodies above every \<^verbatim>\<open>Unlock()\<close> follows
  the \<^verbatim>\<open>Lock()\<close> of the same call, so it never meets an unlocked mutex.
\<close>

definition stepTask :: "'s LoadBalancingStrategy \<Rightarrow> nat \<Rightarrow> 's config \<Rightarrow> 's config option" where
  "stepTask S i c =
     (if length (tasks c) \<le> i then None
      else case tasks c ! i of
        [] \<Rightarrow> None
      | st # rest \<Rightarrow>
          (let c' = c\<lparr>tasks := (tasks c)[i := rest]\<rparr>; f = frontend c in
           case st of
             LockStep \<Rightarrow> (if holder c = None then Some (c'\<lparr>holder := Some i\<rparr>) else None)
           | UnlockStep \<Rightarrow> Some (c'\<lparr>holder := None\<rparr>)
           | AppendBackends b \<Rightarrow> Some (c'\<lparr>frontend := f\<lparr>backends := backends f @ [b]\<rparr>\<rparr>)
           | DeleteBackends b \<Rightarrow>
               (case findIdxOfBackend f b of
                  (idx, found) \<Rightarrow>
                    (if found
                     then Some (c'\<lparr>frontend :=
                            f\<lparr>backends := take (nat idx) (backends f) @
                                           drop (nat (idx + 1)) (backends f)\<rparr>\<rparr>)
                     else Some c'))
           | StrategyAdd b \<Rightarrow> Some (c'\<lparr>frontend := f\<lparr>strategy := AddBackend S b (strategy f)\<rparr>\<rparr>)
           | StrategyRemove b \<Rightarrow>
               Some (c'\<lparr>frontend := f\<lparr>strategy := RemoveBackend S b (strategy f)\<rparr>\<rparr>)
           | StrategyNext \<Rightarrow>
               (case Next S (strategy f) of
                  (node, st') \<Rightarrow>
                    Some (c'\<lparr>frontend := f\<lparr>strategy := st'\<rparr>,
                             returns := returns c @ [(i, GotNode node)]\<rparr>))
           | ReadLen \<Rightarrow> Some (c'\<lparr>returns := returns c @ [(i, GotLen (LenOfBackends f))]\<rparr>)))"

text \<open>A schedule is the list of task numbers in the order in which they take steps.\<close>

fun runSchedule :: "'s LoadBalancingStrategy \<Rightarrow> nat list \<Rightarrow> 's config \<Rightarrow> 's config option" where
  "runSchedule S [] c = Some c"
| "runSchedule S (i # sched) c =
     (case stepTask S i c of None \<Rightarrow> None | Some c' \<Rightarrow> runSchedule S sched c')"

definition initial :: "'s Frontend \<Rightarrow> step list list \<Rightarrow> 's config" where
  "initial f ts = \<lparr>frontend = f, holder = None, tasks = ts, returns = []\<rparr>"

section \<open>The discovery event processor: providers/marathon.go\<close>

subsection \<open>Data\<close>

text \<open>
  The types of the orchestrator client (\<^verbatim>\<open>go-marathon\<close>) and of the package \<^verbatim>\<open>types\<close>
  are declared outside \<^verbatim>\<open>marathon.go\<close>; the records below hold the fields that the file
  reads or writes. The labels of an application are a pointer to a map, which the file
  dereferences with \<^verbatim>\<open>*app.Labels\<close>: the field is an \<open>option\<close>, \<open>None\<close> being the
  \<^verbatim>\<open>nil\<close> pointer of an application that came without labels. The elements of
  \<^verbatim>\<open>[]*marathon.IPAddress\<close> and the payload of an event are held by value. A Go
  \<^verbatim>\<open>int\<close> is an \<open>int\<close>; the only arithmetic on it is comparison with slice lengths.
\<close>

type_synonym Labels = "string \<rightharpoonup> string"

record BackendInfo =
  AppId :: string
  Node :: string

record AppInfo =
  AppId :: string
  Labels :: Labels

record IPAddress =
  IPAddress :: string
  Protocol :: string

record Task =
  IPAddresses :: "IPAddress list"
  Ports :: "int list"

record Application =
  ID :: string
  Labels :: "Labels option"
  Tasks :: "Task list"

record EventStatusUpdate =
  AppID :: string
  TaskStatus :: string
  IPAddresses :: "IPAddress list"
  Ports :: "int list"

record EventAPIRequest =
  AppDefinition :: Application

text \<open>
  An event of the stream: \<^verbatim>\<open>event.ID\<close> together with the payload \<^verbatim>\<open>event.Event\<close> of the
  type that belongs to that ID. The listener subscribes to four kinds of events.
\<close>

datatype Event =
    EventIDStatusUpdate EventStatusUpdate
  | EventIDAPIRequest EventAPIRequest
  | EventIDFailedHealthCheck
  | EventIDAppTerminated

text \<open>
  The two calls made on the client, with Go's \<^verbatim>\<open>(value, err)\<close> as a sum: \<open>Inl\<close> carries
  the error. \<open>Applications\<close> is the answer to the listing with embedded tasks,
  \<open>Application\<close> the answer to a fetch by id.
\<close>

record Marathon =
  Applications :: "string + Application list"
  Application :: "string \<Rightarrow> string + Application"

text \<open>
  What \<^verbatim>\<open>marathon.go\<close> takes from other packages: the two label readers of
  \<^verbatim>\<open>golang-utils/maps\<close> (labels, key, default) and the two label names of \<^verbatim>\<open>types\<close>.
  They are parameters of the model.
\<close>

record deps =
  GetBoolean :: "Labels \<Rightarrow> string \<Rightarrow> bool \<Rightarrow> bool"
  GetInt :: "Labels \<Rightarrow> string \<Rightarrow> int \<Rightarrow> int"
  TLB_ENABLED :: string
  TLB_PORTINDEX :: string

text \<open>
  One value sent on one of the four channels of the provider, named after the channel.
\<close>

datatype sent =
    addBackend BackendInfo
  | removeBackend BackendInfo
  | appUpdate AppInfo
  | dropApp AppInfo

text \<open>
  The state of a \<^verbatim>\<open>MarathonProvider\<close>: the map \<^verbatim>\<open>apps\<close>, and in place of the four
  channels the values sent on them so far, oldest first (the provider is one goroutine,
  so its sends are totally ordered). Lines written to the log are not part of the state.
\<close>

record MarathonProvider =
  apps :: "string \<rightharpoonup> Labels"
  sends :: "sent list"

text \<open>
  A run-time panic, which nothing in the file recovers from, ends the run; what had been
  sent before stays sent. The second component is the provider at that moment.
\<close>

datatype panic = IndexOutOfRange | NilDereference

datatype result = Returned MarathonProvider | Panicked panic MarathonProvider

subsection \<open>Formatting a port\<close>

definition digitChar :: "nat \<Rightarrow> char" where
  "digitChar d = ''0123456789'' ! d"

function digits :: "nat \<Rightarrow> string" where
  "digits n = (if n < 10 then [digitChar n] else digits (n div 10) @ [digitChar (n mod 10)])"
  by pat_completeness auto
termination
  by (relation "measure id") auto

declare digits.simps [simp del]

text \<open>\<^verbatim>\<open>fmt.Sprintf("%d", i)\<close>.\<close>

definition Sprintf_d :: "int \<Rightarrow> string" where
  "Sprintf_d i = (if i < 0 then CHR ''-'' # digits (nat (- i)) else digits (nat i))"

subsection \<open>Methods\<close>

definition containsApp :: "MarathonProvider \<Rightarrow> string \<Rightarrow> bool" where
  "containsApp m app_id = (case apps m app_id of None \<Rightarrow> False | Some labels \<Rightarrow> True)"

definition appApp :: "string \<Rightarrow> Labels \<Rightarrow> MarathonProvider \<Rightarrow> MarathonProvider" where
  "appApp app_id labels m = m\<lparr>apps := (apps m)(app_id \<mapsto> labels)\<rparr>"

definition send :: "sent \<Rightarrow> MarathonProvider \<Rightarrow> MarathonProvider" where
  "send v m = m\<lparr>sends := sends m @ [v]\<rparr>"

text \<open>
  The first two lines of \<^verbatim>\<open>createBackendInfo\<close>. Reading a key that a Go map does not
  hold gives the zero value, here the \<^verbatim>\<open>nil\<close> map, which has no entries.
\<close>

definition portIndexOf :: "deps \<Rightarrow> MarathonProvider \<Rightarrow> string \<Rightarrow> int" where
  "portIndexOf D m app_id =
     (let appLabels = (case apps m app_id of None \<Rightarrow> Map.empty | Some labels \<Rightarrow> labels)
      in GetInt D appLabels (TLB_PORTINDEX D) 0)"

text \<open>
  \<^verbatim>\<open>createBackendInfo\<close>. Go checks every index expression at run time: an index below
  zero or not below the length of the slice panics. The expression for \<^verbatim>\<open>Node\<close> indexes
  \<^verbatim>\<open>ipAddresses\<close> first and \<^verbatim>\<open>ports\<close> second.
\<close>

definition createBackendInfo ::
  "deps \<Rightarrow> MarathonProvider \<Rightarrow> string \<Rightarrow> IPAddress list \<Rightarrow> int list \<Rightarrow> panic + BackendInfo" where
  "createBackendInfo D m app_id ipAddresses ports =
     (let portIndex = portIndexOf D m app_id in
      if portIndex < 0 \<or> int (length ipAddresses) \<le> portIndex then Inl IndexOutOfRange
      else if int (length ports) \<le> portIndex then Inl IndexOutOfRange
      else Inr \<lparr>BackendInfo.AppId = app_id,
                Node = IPAddress (ipAddresses ! nat portIndex) @ '':'' @
                       Sprintf_d (ports ! nat portIndex)\<rparr>)"

text \<open>The inner loop of \<^verbatim>\<open>scanAllApps\<close>, over the tasks of one application.\<close>

fun scanTasks :: "deps \<Rightarrow> string \<Rightarrow> Task list \<Rightarrow> MarathonProvider \<Rightarrow> result" where
  "scanTasks D app_id [] m = Returned m"
| "scanTasks D app_id (task # rest) m =
     (case createBackendInfo D m app_id (Task.IPAddresses task) (Task.Ports task) of
        Inl p \<Rightarrow> Panicked p m
      | Inr backendInfo \<Rightarrow> scanTasks D app_id rest (send (addBackend backendInfo) m))"

text \<open>
  The outer loop of \<^verbatim>\<open>scanAllApps\<close>, over the listed applications. The condition of
  the \<^verbatim>\<open>if\<close> dereferences \<^verbatim>\<open>app.Labels\<close> for every listed application, before the
  enable label is read; a \<^verbatim>\<open>nil\<close> pointer panics there.
\<close>

fun scanApps :: "deps \<Rightarrow> Application list \<Rightarrow> MarathonProvider \<Rightarrow> result" where
  "scanApps D [] m = Returned m"
| "scanApps D (app # rest) m =
     (case Application.Labels app of
        None \<Rightarrow> Panicked NilDereference m
      | Some labels \<Rightarrow>
          (if GetBoolean D labels (TLB_ENABLED D) False
           then (case scanTasks D (ID app) (Tasks app)
                        (appApp (ID app) labels
                           (send (appUpdate \<lparr>AppInfo.AppId = ID app, Labels = labels\<rparr>) m)) of
                   Panicked p m' \<Rightarrow> Panicked p m'
                 | Returned m' \<Rightarrow> scanApps D rest m')
           else scanApps D rest m))"

definition scanAllApps :: "deps \<Rightarrow> Marathon \<Rightarrow> MarathonProvider \<Rightarrow> result" where
  "scanAllApps D client m =
     (case Applications client of
        Inl err \<Rightarrow> Returned m
      | Inr listed \<Rightarrow> scanApps D listed m)"

text \<open>
  The body of \<^verbatim>\<open>switch event.ID\<close> in \<^verbatim>\<open>start\<close>. The switch has cases for two of the
  four kinds of events. In the API-request case the value to be sent is built first, and
  building it dereferences \<^verbatim>\<open>app.AppDefinition.Labels\<close>: on a \<^verbatim>\<open>nil\<close> pointer the
  processor panics before the send. When the fetch failed this happens only for a known
  application, since the value is built inside \<^verbatim>\<open>if knownApp\<close>.
\<close>

definition handleEvent :: "deps \<Rightarrow> Marathon \<Rightarrow> Event \<Rightarrow> MarathonProvider \<Rightarrow> result" where
  "handleEvent D client event m =
     (case event of
        EventIDStatusUpdate update \<Rightarrow>
          (let knownApp = containsApp m (AppID update) in
           if knownApp \<and> TaskStatus update = ''TASK_FAILED''
           then (case createBackendInfo D m (AppID update)
                        (EventStatusUpdate.IPAddresses update) (EventStatusUpdate.Ports update) of
                   Inl p \<Rightarrow> Panicked p m
                 | Inr backendInfo \<Rightarrow> Returned (send (removeBackend backendInfo) m))
           else if knownApp \<and> TaskStatus update = ''TASK_RUNNING''
           then (case createBackendInfo D m (AppID update)
                        (EventStatusUpdate.IPAddresses update) (EventStatusUpdate.Ports update) of
                   Inl p \<Rightarrow> Panicked p m
                 | Inr backendInfo \<Rightarrow> Returned (send (addBackend backendInfo) m))
           else Returned m)
      | EventIDAPIRequest app \<Rightarrow>
          (case Application client (ID (AppDefinition app)) of
             Inl err \<Rightarrow>
               (let knownApp = containsApp m (ID (AppDefinition app)) in
                if knownApp
                then (case Application.Labels (AppDefinition app) of
                        None \<Rightarrow> Panicked NilDereference m
                      | Some labels \<Rightarrow>
                          Returned (send (dropApp \<lparr>AppInfo.AppId = ID (AppDefinition app),
                                            Labels = labels\<rparr>) m))
                else Returned m)
           | Inr fetched \<Rightarrow>
               (case Application.Labels (AppDefinition app) of
                  None \<Rightarrow> Panicked NilDereference m
                | Some labels \<Rightarrow>
                    Returned (send (appUpdate \<lparr>AppInfo.AppId = ID (AppDefinition app),
                                      Labels = labels\<rparr>) m)))
      | EventIDFailedHealthCheck \<Rightarrow> Returned m
      | EventIDAppTerminated \<Rightarrow> Returned m)"

text \<open>
  The loop \<^verbatim>\<open>for running { select { ... } }\<close> of \<^verbatim>\<open>start\<close>, run on what the two channels
  deliver, in order: an event (with the client as it answers while that event is
  handled) or the stop signal. When the list is used up the loop is waiting.
\<close>

datatype selected = FromEventsChannel Marathon Event | FromStopMe

fun eventLoop :: "deps \<Rightarrow> selected list \<Rightarrow> MarathonProvider \<Rightarrow> result" where
  "eventLoop D [] m = Returned m"
| "eventLoop D (FromStopMe # rest) m = Returned m"
| "eventLoop D (FromEventsChannel client event # rest) m =
     (case handleEvent D client event m of
        Panicked p m' \<Rightarrow> Panicked p m'
      | Returned m' \<Rightarrow> eventLoop D rest m')"

section \<open>The scan as the specification describes it\<close>






section \<open>Concrete inputs\<close>

text \<open>
  To run the model, the parameters need values. The label readers below return the
  default when the key is missing, read \<open>true\<close> as the only true boolean and read the
  one-digit indices \<open>0\<close> and \<open>1\<close>; the label names are \<open>tlb.enabled\<close> and
  \<open>tlb.portIndex\<close>. The theorems that hold for every value of the parameters do not
  depend on these choices.
\<close>

definition exampleGetBoolean :: "Labels \<Rightarrow> string \<Rightarrow> bool \<Rightarrow> bool" where
  "exampleGetBoolean labels key dflt =
     (case labels key of None \<Rightarrow> dflt | Some v \<Rightarrow> v = ''true'')"

definition exampleGetInt :: "Labels \<Rightarrow> string \<Rightarrow> int \<Rightarrow> int" where
  "exampleGetInt labels key dflt =
     (case labels key of
        None \<Rightarrow> dflt
      | Some v \<Rightarrow> (if v = ''0'' then 0 else if v = ''1'' then 1 else dflt))"

definition exampleDeps :: deps where
  "exampleDeps = \<lparr>GetBoolean = exampleGetBoolean, GetInt = exampleGetInt,
     TLB_ENABLED = ''tlb.enabled'', TLB_PORTINDEX = ''tlb.portIndex''\<rparr>"

text \<open>The application of the specification's scan example, and a provider that knows it.\<close>

definition app1Labels :: Labels where
  "app1Labels = [''tlb.enabled'' \<mapsto> ''true'', ''tlb.portIndex'' \<mapsto> ''0'']"

definition app1 :: Application where
  "app1 = \<lparr>ID = ''app1'', Labels = Some app1Labels,
     Tasks = [\<lparr>Task.IPAddresses = [\<lparr>IPAddress = ''10.0.0.1'', Protocol = ''IPv4''\<rparr>],
               Ports = [9000]\<rparr>]\<rparr>"

definition freshProvider :: MarathonProvider where
  "freshProvider = \<lparr>apps = Map.empty, sends = []\<rparr>"

definition knowsApp1 :: MarathonProvider where
  "knowsApp1 = \<lparr>apps = [''app1'' \<mapsto> app1Labels], sends = []\<rparr>"

text \<open>
  An orchestrator on which \<open>app1\<close> runs, and one on which no application exists any
  more, so that every fetch fails.
\<close>

definition runningClient :: Marathon where
  "runningClient = \<lparr>Applications = Inr [app1], Application = (\<lambda>id. Inr app1)\<rparr>"

definition goneClient :: Marathon where
  "goneClient = \<lparr>Applications = Inr [], Application = (\<lambda>id. Inl ''not found'')\<rparr>"


definition app1Update :: "string \<Rightarrow> EventStatusUpdate" where
  "app1Update status = \<lparr>AppID = ''app1'', TaskStatus = status,
     IPAddresses = [\<lparr>IPAddress = ''10.0.0.1'', Protocol = ''IPv4''\<rparr>], Ports = [9000]\<rparr>"





text \<open>
  \<open>app1\<close> as an application that came without labels, and an orchestrator that lists it
  in front of the labelled \<open>app1\<close>.
\<close>

definition unlabelledApp1 :: Application where
  "unlabelledApp1 = \<lparr>ID = ''app1'', Labels = None, Tasks = []\<rparr>"


text \<open>A strategy that keeps no state, for running the registry on concrete calls.\<close>

definition idleStrategy :: "unit LoadBalancingStrategy" where
  "idleStrategy = \<lparr>Next = (\<lambda>s. ([], s)), AddBackend = (\<lambda>b s. s), RemoveBackend = (\<lambda>b s. s)\<rparr>"

section \<open>Properties of the backend registry\<close>

subsection \<open>The search\<close>

lemma findIdxFrom_absent:
  "backend \<notin> set bs \<Longrightarrow> findIdxFrom bs backend i = (- 1, False)"
  by (induction bs arbitrary: i) auto

lemma findIdxFrom_present:
  "backend \<in> set bs \<Longrightarrow>
     \<exists>ys zs. bs = ys @ backend # zs \<and> backend \<notin> set ys \<and>
             findIdxFrom bs backend i = (i + int (length ys), True)"
proof (induction bs arbitrary: i)
  case Nil
  then show ?case by simp
next
  case (Cons node rest)
  show ?case
  proof (cases "node = backend")
    case True
    then have "node # rest = [] @ backend # rest \<and> backend \<notin> set [] \<and>
        findIdxFrom (node # rest) backend i = (i + int (length ([]::string list)), True)"
      by simp
    then show ?thesis by blast
  next
    case False
    with Cons.prems have "backend \<in> set rest" by simp
    from Cons.IH [OF this, of "i + 1"] obtain ys zs where
      h: "rest = ys @ backend # zs" "backend \<notin> set ys"
         "findIdxFrom rest backend (i + 1) = (i + 1 + int (length ys), True)"
      by blast
    from h False have "node # rest = (node # ys) @ backend # zs \<and> backend \<notin> set (node # ys) \<and>
        findIdxFrom (node # rest) backend i = (i + int (length (node # ys)), True)"
      by simp
    then show ?thesis by blast
  qed
qed

lemma findIdxFrom_found_iff: "snd (findIdxFrom bs backend i) \<longleftrightarrow> backend \<in> set bs"
  by (induction bs arbitrary: i) auto

lemma remove_split:
  assumes "backend \<in> set (backends f)"
  shows "\<exists>ys zs. backends f = ys @ backend # zs \<and> backend \<notin> set ys \<and>
           backends (fst (Frontend_RemoveBackend S backend f)) = ys @ zs"
proof -
  from findIdxFrom_present [OF assms, of 0] obtain ys zs where
    h: "backends f = ys @ backend # zs" "backend \<notin> set ys"
       "findIdxFrom (backends f) backend 0 = (int (length ys), True)"
    by auto
  have "backends (fst (Frontend_RemoveBackend S backend f)) = ys @ zs"
    using h by (simp add: Frontend_RemoveBackend_def findIdxOfBackend_def nat_add_distrib)
  with h show ?thesis by blast
qed

lemma remove_absent_backends:
  "backend \<notin> set (backends f) \<Longrightarrow>
     backends (fst (Frontend_RemoveBackend S backend f)) = backends f"
  by (simp add: Frontend_RemoveBackend_def findIdxOfBackend_def findIdxFrom_absent)

lemma remove_is_remove1:
  "backends (fst (Frontend_RemoveBackend S b f)) = remove1 b (backends f)"
proof (cases "b \<in> set (backends f)")
  case True
  from remove_split [OF True, of S] obtain ys zs where
    h: "backends f = ys @ b # zs" "b \<notin> set ys"
       "backends (fst (Frontend_RemoveBackend S b f)) = ys @ zs"
    by blast
  then show ?thesis
    by (simp add: remove1_append)
next
  case False
  then show ?thesis
    by (simp add: remove_absent_backends remove1_idem)
qed

lemma exec_length:
  "length (backends (exec S cs f)) + specMatched cs (backends f) = length (backends f) + adds cs"
proof (induction cs arbitrary: f)
  case Nil
  then show ?case by simp
next
  case (Cons c cs)
  show ?case
  proof (cases c)
    case (Add b)
    with Cons.IH [of "exec1 S (Add b) f"] show ?thesis
      by (simp add: Frontend_AddBackend_def)
  next
    case (Remove b)
    show ?thesis
    proof (cases "b \<in> set (backends f)")
      case True
      from True have "0 < length (backends f)"
        by (rule length_pos_if_in_set)
      with True have "length (remove1 b (backends f)) + 1 = length (backends f)"
        by (simp add: length_remove1)
      with Cons.IH [of "exec1 S (Remove b) f"] Remove True show ?thesis
        by (simp add: remove_is_remove1)
    next
      case False
      with Cons.IH [of "exec1 S (Remove b) f"] Remove show ?thesis
        by (simp add: remove_is_remove1 remove1_idem)
    qed
  qed
qed

subsection \<open>Removing a backend that is not there\<close>

text \<open>
  C7. \<^verbatim>\<open>RemoveBackend\<close> with a node that does not occur in the backend list returns
  normally; the Frontend it leaves behind has the same backend list, application id and
  port as before, the only change being the strategy's own \<^verbatim>\<open>RemoveBackend\<close> call, and
  the only thing logged is one \<^verbatim>\<open>[WARN]\<close> line.
\<close>

theorem remove_absent_is_warning:
  "backend \<notin> set (backends f) \<Longrightarrow>
     Frontend_RemoveBackend S backend f =
       (f\<lparr>strategy := RemoveBackend S backend (strategy f)\<rparr>,
        [''[WARN] Backend '' @ backend @ '' is not part of this frontend - '' @ appId f])"
  by (simp add: Frontend_RemoveBackend_def findIdxOfBackend_def findIdxFrom_absent
      warnNotPart_def)

theorem remove_absent_is_warning_witness:
  "''c:3'' \<notin> set (backends (NewFrontend (0::nat) ''app1'' ''8080'' [''a:1'', ''b:2''])) \<and>
   Frontend_RemoveBackend \<lparr>Next = (\<lambda>s. ([], s)), AddBackend = (\<lambda>b s. s), RemoveBackend = (\<lambda>b s. Suc s)\<rparr>
       ''c:3'' (NewFrontend (0::nat) ''app1'' ''8080'' [''a:1'', ''b:2'']) =
     (\<lparr>appId = ''app1'', backends = [''a:1'', ''b:2''], port = ''8080'', strategy = Suc 0\<rparr>,
      [''[WARN] Backend c:3 is not part of this frontend - app1''])"
  using remove_absent_is_warning
    [of "''c:3''" "NewFrontend (0::nat) ''app1'' ''8080'' [''a:1'', ''b:2'']"
        "\<lparr>Next = (\<lambda>s. ([], s)), AddBackend = (\<lambda>b s. s), RemoveBackend = (\<lambda>b s. Suc s)\<rparr>"]
  by (simp add: NewFrontend_def)

subsection \<open>The length of the backend list\<close>

text \<open>
  C8. After any finite sequence of \<^verbatim>\<open>AddBackend\<close> and \<^verbatim>\<open>RemoveBackend\<close> calls on one
  Frontend, \<^verbatim>\<open>LenOfBackends()\<close> is the number of backends the Frontend held before the
  sequence, plus the number of adds, minus the number of removes that matched a present
  backend; it is never negative. For a Frontend just created, the number before the
  sequence is the length of the list handed to \<^verbatim>\<open>NewFrontend\<close>, so that on a Frontend
  created with no backends the result is the number of adds minus the number of matched
  removes.
\<close>

theorem len_of_backends_counts:
  "LenOfBackends (exec S cs f) =
     LenOfBackends f + int (adds cs) - int (specMatched cs (backends f)) \<and>
   0 \<le> LenOfBackends (exec S cs f) \<and>
   LenOfBackends (exec S cs (NewFrontend rr a p bs)) =
     int (length bs) + int (adds cs) - int (specMatched cs bs) \<and>
   LenOfBackends (exec S cs (NewFrontend rr a p [])) = int (adds cs) - int (specMatched cs [])"
proof -
  have g: "LenOfBackends (exec S cs h) =
      LenOfBackends h + int (adds cs) - int (specMatched cs (backends h))"
    for h :: "'a Frontend"
    using exec_length [of S cs h] by (simp add: LenOfBackends_def)
  have n: "backends (NewFrontend rr a p xs) = xs" for xs
    by (simp add: NewFrontend_def)
  from g [of f] g [of "NewFrontend rr a p bs"] g [of "NewFrontend rr a p []"] show ?thesis
    by (simp add: n) (simp add: LenOfBackends_def n)
qed

text \<open>
  Without the backends the Frontend was created with, the count is wrong: a Frontend
  created with the one backend \<open>x\<close>, after the one call \<^verbatim>\<open>RemoveBackend("x")\<close>, has
  length 0, while the number of adds minus the number of matched removes is \<open>-1\<close>.
\<close>

theorem len_of_backends_counterexample:
  "LenOfBackends (exec idleStrategy [Remove ''x''] (NewFrontend () ''app1'' ''8080'' [''x''])) = 0 \<and>
   adds [Remove ''x''] = 0 \<and>
   specMatched [Remove ''x''] (backends (NewFrontend () ''app1'' ''8080'' [''x''])) = 1 \<and>
   LenOfBackends (exec idleStrategy [Remove ''x''] (NewFrontend () ''app1'' ''8080'' [''x''])) \<noteq>
     int (adds [Remove ''x'']) -
     int (specMatched [Remove ''x''] (backends (NewFrontend () ''app1'' ''8080'' [''x''])))"
  by (simp add: LenOfBackends_def NewFrontend_def Frontend_RemoveBackend_def
      findIdxOfBackend_def idleStrategy_def)

subsection \<open>Duplicates\<close>

text \<open>
  C10. \<^verbatim>\<open>AddBackend\<close> appends the node whether or not the list already holds it, so a
  node can occur several times. \<^verbatim>\<open>RemoveBackend\<close> of a node that occurs in the list
  deletes its first occurrence and nothing else: the list splits as \<open>ys @ node # zs\<close> with
  no occurrence in \<open>ys\<close>, the result is \<open>ys @ zs\<close>, and the number of occurrences drops
  by exactly one.
\<close>

theorem remove_first_duplicate:
  "backends (Frontend_AddBackend S backend f) = backends f @ [backend] \<and>
   (backend \<in> set (backends f) \<longrightarrow>
      (\<exists>ys zs. backends f = ys @ backend # zs \<and> backend \<notin> set ys \<and>
               backends (fst (Frontend_RemoveBackend S backend f)) = ys @ zs) \<and>
      count_list (backends (fst (Frontend_RemoveBackend S backend f))) backend + 1 =
        count_list (backends f) backend)"
proof -
  have a: "backends (Frontend_AddBackend S backend f) = backends f @ [backend]"
    by (simp add: Frontend_AddBackend_def)
  have b: "(\<exists>ys zs. backends f = ys @ backend # zs \<and> backend \<notin> set ys \<and>
               backends (fst (Frontend_RemoveBackend S backend f)) = ys @ zs) \<and>
      count_list (backends (fst (Frontend_RemoveBackend S backend f))) backend + 1 =
        count_list (backends f) backend" if "backend \<in> set (backends f)"
  proof -
    from remove_split [OF that, of S] obtain ys zs where
      h: "backends f = ys @ backend # zs" "backend \<notin> set ys"
         "backends (fst (Frontend_RemoveBackend S backend f)) = ys @ zs"
      by blast
    then have "count_list (backends (fst (Frontend_RemoveBackend S backend f))) backend + 1 =
        count_list (backends f) backend"
      by simp
    with h show ?thesis by blast
  qed
  from a b show ?thesis by blast
qed

theorem remove_first_duplicate_witness:
  "backends (exec \<lparr>Next = (\<lambda>s. ([], s)), AddBackend = (\<lambda>b s. s), RemoveBackend = (\<lambda>b s. s)\<rparr>
      [Add ''a:1'', Add ''b:2'', Add ''a:1'']
      (NewFrontend (0::nat) ''app1'' ''8080'' [])) = [''a:1'', ''b:2'', ''a:1''] \<and>
   ''a:1'' \<in> set (backends \<lparr>appId = ''app1'', backends = [''a:1'', ''b:2'', ''a:1''],
      port = ''8080'', strategy = (0::nat)\<rparr>) \<and>
   backends (fst (Frontend_RemoveBackend
      \<lparr>Next = (\<lambda>s. ([], s)), AddBackend = (\<lambda>b s. s), RemoveBackend = (\<lambda>b s. s)\<rparr> ''a:1''
      \<lparr>appId = ''app1'', backends = [''a:1'', ''b:2'', ''a:1''], port = ''8080'',
        strategy = (0::nat)\<rparr>)) = [''b:2'', ''a:1'']"
proof -
  let ?S = "\<lparr>Next = (\<lambda>s::nat. ([], s)), AddBackend = (\<lambda>b s. s), RemoveBackend = (\<lambda>b s. s)\<rparr>"
  let ?f = "\<lparr>appId = ''app1'', backends = [''a:1'', ''b:2'', ''a:1''], port = ''8080'',
     strategy = (0::nat)\<rparr>"
  have m: "''a:1'' \<in> set (backends ?f)" by simp
  from remove_first_duplicate [of ?S "''a:1''" ?f] m obtain ys zs where
    h: "backends ?f = ys @ ''a:1'' # zs" "''a:1'' \<notin> set ys"
       "backends (fst (Frontend_RemoveBackend ?S ''a:1'' ?f)) = ys @ zs"
    by blast
  from h(1,2) have "ys = []" by (cases ys) auto
  with h have "backends (fst (Frontend_RemoveBackend ?S ''a:1'' ?f)) = [''b:2'', ''a:1'']"
    by simp
  moreover have "backends (exec ?S [Add ''a:1'', Add ''b:2'', Add ''a:1'']
      (NewFrontend (0::nat) ''app1'' ''8080'' [])) = [''a:1'', ''b:2'', ''a:1'']"
    by (simp add: Frontend_AddBackend_def NewFrontend_def)
  ultimately show ?thesis using m by blast
qed

section \<open>Properties of interleaved calls\<close>

text \<open>
  Run alone, the steps of each body add up to the method of the first section.
\<close>

lemma run_AddBackend_alone:
  "runSchedule S [0, 0, 0, 0] (initial f [AddBackend_body backend]) =
     Some \<lparr>frontend = Frontend_AddBackend S backend f, holder = None, tasks = [[]], returns = []\<rparr>"
  by (simp add: initial_def AddBackend_body_def stepTask_def Frontend_AddBackend_def)

lemma run_RemoveBackend_alone:
  "runSchedule S [0, 0, 0, 0] (initial f [RemoveBackend_body backend]) =
     Some \<lparr>frontend = fst (Frontend_RemoveBackend S backend f), holder = None, tasks = [[]],
           returns = []\<rparr>"
  by (simp add: initial_def RemoveBackend_body_def stepTask_def Frontend_RemoveBackend_def
      findIdxOfBackend_def split: prod.splits)

lemma run_Lookup_alone:
  "runSchedule S [0] (initial f [Lookup_body]) =
     Some \<lparr>frontend = snd (Lookup S f), holder = None, tasks = [[]],
           returns = [(0, GotNode (fst (Lookup S f)))]\<rparr>"
  by (simp add: initial_def Lookup_body_def stepTask_def Lookup_def split: prod.splits)

lemma run_LenOfBackends_alone:
  "runSchedule S [0, 0, 0] (initial f [LenOfBackends_body]) =
     Some \<lparr>frontend = f, holder = None, tasks = [[]], returns = [(0, GotLen (LenOfBackends f))]\<rparr>"
  by (simp add: initial_def LenOfBackends_body_def stepTask_def)

text \<open>A task that reaches \<^verbatim>\<open>Lock()\<close> while the mutex is held cannot step.\<close>

lemma lock_blocks:
  "holder c = Some j \<Longrightarrow> i < length (tasks c) \<Longrightarrow> tasks c ! i = LockStep # rest \<Longrightarrow>
   stepTask S i c = None"
  by (simp add: stepTask_def)

text \<open>
  C2. Mutual exclusion of \<^verbatim>\<open>Lookup\<close> and \<^verbatim>\<open>AddBackend\<close> through \<^verbatim>\<open>f.lock\<close>, tried on
  two tasks: task 0 calls \<^verbatim>\<open>AddBackend\<close>, task 1 calls \<^verbatim>\<open>Lookup\<close>. In the schedule
  in which task 0 locks and appends and task 1 then runs, \<^verbatim>\<open>Lookup\<close> completes while task
  0 holds the lock: it selected from the strategy as it was before the call, although
  the backend list already has the new node and the strategy has not been told yet. A
  \<^verbatim>\<open>LenOfBackends\<close> call in the place of the \<^verbatim>\<open>Lookup\<close> blocks in the same schedule, as
  the lock demands.
\<close>

theorem lookup_runs_while_lock_is_held:
  "runSchedule S [0, 0, 1] (initial f [AddBackend_body backend, Lookup_body]) =
     Some \<lparr>frontend = f\<lparr>backends := backends f @ [backend],
                         strategy := snd (Next S (strategy f))\<rparr>,
           holder = Some 0,
           tasks = [[StrategyAdd backend, UnlockStep], []],
           returns = [(1, GotNode (fst (Next S (strategy f))))]\<rparr> \<and>
   runSchedule S [0, 0, 1] (initial f [AddBackend_body backend, LenOfBackends_body]) = None"
  by (simp add: initial_def AddBackend_body_def Lookup_body_def LenOfBackends_body_def
      stepTask_def split: prod.splits)

section \<open>Properties of the discovery event processor\<close>

subsection \<open>Formatting and the backend address\<close>

lemma digits_small: "n < 10 \<Longrightarrow> digits n = [digitChar n]"
  by (simp add: digits.simps [of n])

lemma digits_large: "10 \<le> n \<Longrightarrow> digits n = digits (n div 10) @ [digitChar (n mod 10)]"
  by (simp add: digits.simps [of n])

lemma Sprintf_d_9000: "Sprintf_d 9000 = ''9000''"
  by (simp add: Sprintf_d_def digits_small digits_large digitChar_def)







subsection \<open>Status updates\<close>







text \<open>
  C9. A status-update event whose task status is neither \<open>TASK_FAILED\<close> nor
  \<open>TASK_RUNNING\<close> sends nothing and leaves the provider as it was, whether or not the
  application id is known.
\<close>

theorem other_status_is_ignored:
  "TaskStatus u \<noteq> ''TASK_FAILED'' \<Longrightarrow> TaskStatus u \<noteq> ''TASK_RUNNING'' \<Longrightarrow>
   handleEvent D client (EventIDStatusUpdate u) m = Returned m"
  by (simp add: handleEvent_def)

text \<open>\<open>TASK_KILLED\<close> and \<open>TASK_FINISHED\<close> for the known \<open>app1\<close>.\<close>

theorem other_status_is_ignored_witness:
  "containsApp knowsApp1 (AppID (app1Update ''TASK_KILLED'')) \<and>
   handleEvent exampleDeps runningClient (EventIDStatusUpdate (app1Update ''TASK_KILLED'')) knowsApp1 =
     Returned knowsApp1 \<and>
   handleEvent exampleDeps runningClient (EventIDStatusUpdate (app1Update ''TASK_FINISHED'')) knowsApp1 =
     Returned knowsApp1"
  using other_status_is_ignored [of "app1Update ''TASK_KILLED''" exampleDeps runningClient knowsApp1]
    other_status_is_ignored [of "app1Update ''TASK_FINISHED''" exampleDeps runningClient knowsApp1]
  by (simp add: app1Update_def containsApp_def knowsApp1_def)

subsection \<open>The initial scan\<close>






lemma enabled_app1: "GetBoolean exampleDeps app1Labels (TLB_ENABLED exampleDeps) False"
  by (simp add: exampleDeps_def exampleGetBoolean_def app1Labels_def)

lemma index_app1: "GetInt exampleDeps app1Labels (TLB_PORTINDEX exampleDeps) 0 = 0"
  by (simp add: exampleDeps_def exampleGetInt_def app1Labels_def)




subsection \<open>API requests\<close>

lemma handle_api_fetched:
  "Application client (ID (AppDefinition e)) = Inr fetched \<Longrightarrow>
   Application.Labels (AppDefinition e) = Some labels \<Longrightarrow>
   handleEvent D client (EventIDAPIRequest e) m =
     Returned (m\<lparr>sends := sends m @
       [appUpdate \<lparr>AppInfo.AppId = ID (AppDefinition e), Labels = labels\<rparr>]\<rparr>)"
  by (simp add: handleEvent_def send_def)

lemma handle_api_failed_known:
  "Application client (ID (AppDefinition e)) = Inl err \<Longrightarrow>
   containsApp m (ID (AppDefinition e)) \<Longrightarrow>
   Application.Labels (AppDefinition e) = Some labels \<Longrightarrow>
   handleEvent D client (EventIDAPIRequest e) m =
     Returned (m\<lparr>sends := sends m @
       [dropApp \<lparr>AppInfo.AppId = ID (AppDefinition e), Labels = labels\<rparr>]\<rparr>)"
  by (simp add: handleEvent_def send_def)

lemma handle_api_failed_unknown:
  "Application client (ID (AppDefinition e)) = Inl err \<Longrightarrow>
   \<not> containsApp m (ID (AppDefinition e)) \<Longrightarrow>
   handleEvent D client (EventIDAPIRequest e) m = Returned m"
  by (simp add: handleEvent_def)

lemma handle_api_nil_labels:
  "Application.Labels (AppDefinition e) = None \<Longrightarrow>
   handleEvent D client (EventIDAPIRequest e) m =
     (case Application client (ID (AppDefinition e)) of
        Inl err \<Rightarrow>
          if containsApp m (ID (AppDefinition e)) then Panicked NilDereference m else Returned m
      | Inr fetched \<Rightarrow> Panicked NilDereference m)"
  by (simp add: handleEvent_def split: sum.splits)

lemma containsApp_sends: "containsApp (m\<lparr>sends := xs\<rparr>) a = containsApp m a"
  by (simp add: containsApp_def)

text \<open>
  C1. For an API-request event whose fetch fails, whose application id is known and
  whose application definition has a label map (its labels pointer is not \<^verbatim>\<open>nil\<close>), the
  processor sends exactly one \<open>dropApp\<close>, carrying the id and the labels of the event,
  and changes nothing else: the known-apps map is as before, so a second identical event
  sends one more \<open>dropApp\<close>.
\<close>

theorem failed_fetch_drops_every_time:
  "Application client (ID (AppDefinition e)) = Inl err \<Longrightarrow>
   containsApp m (ID (AppDefinition e)) \<Longrightarrow>
   Application.Labels (AppDefinition e) = Some labels \<Longrightarrow>
   handleEvent D client (EventIDAPIRequest e) m =
     Returned (m\<lparr>sends := sends m @
       [dropApp \<lparr>AppInfo.AppId = ID (AppDefinition e), Labels = labels\<rparr>]\<rparr>) \<and>
   eventLoop D [FromEventsChannel client (EventIDAPIRequest e),
                FromEventsChannel client (EventIDAPIRequest e)] m =
     Returned (m\<lparr>sends := sends m @
       [dropApp \<lparr>AppInfo.AppId = ID (AppDefinition e), Labels = labels\<rparr>,
        dropApp \<lparr>AppInfo.AppId = ID (AppDefinition e), Labels = labels\<rparr>]\<rparr>)"
proof -
  assume f: "Application client (ID (AppDefinition e)) = Inl err"
    and k: "containsApp m (ID (AppDefinition e))"
    and l: "Application.Labels (AppDefinition e) = Some labels"
  let ?d = "dropApp \<lparr>AppInfo.AppId = ID (AppDefinition e), Labels = labels\<rparr>"
  have one: "handleEvent D client (EventIDAPIRequest e) m = Returned (m\<lparr>sends := sends m @ [?d]\<rparr>)"
    by (rule handle_api_failed_known [OF f k l])
  from k have "containsApp (m\<lparr>sends := sends m @ [?d]\<rparr>) (ID (AppDefinition e))"
    by (simp add: containsApp_sends)
  from handle_api_failed_known [OF f this l, of D]
  have two: "handleEvent D client (EventIDAPIRequest e) (m\<lparr>sends := sends m @ [?d]\<rparr>) =
      Returned (m\<lparr>sends := sends m @ [?d, ?d]\<rparr>)"
    by simp
  from one two show ?thesis by simp
qed

text \<open>Two such events in a row for the known \<open>app1\<close>.\<close>

theorem failed_fetch_drops_every_time_witness:
  "eventLoop exampleDeps
     [FromEventsChannel goneClient (EventIDAPIRequest \<lparr>AppDefinition = app1\<rparr>),
      FromEventsChannel goneClient (EventIDAPIRequest \<lparr>AppDefinition = app1\<rparr>)] knowsApp1 =
     Returned (knowsApp1\<lparr>sends :=
       [dropApp \<lparr>AppInfo.AppId = ''app1'', Labels = app1Labels\<rparr>,
        dropApp \<lparr>AppInfo.AppId = ''app1'', Labels = app1Labels\<rparr>]\<rparr>)"
proof -
  have f: "Application goneClient (ID (AppDefinition \<lparr>AppDefinition = app1\<rparr>)) = Inl ''not found''"
    by (simp add: goneClient_def)
  have k: "containsApp knowsApp1 (ID (AppDefinition \<lparr>AppDefinition = app1\<rparr>))"
    by (simp add: containsApp_def knowsApp1_def app1_def)
  have l: "Application.Labels (AppDefinition \<lparr>AppDefinition = app1\<rparr>) = Some app1Labels"
    by (simp add: app1_def)
  have s: "sends knowsApp1 = []"
    by (simp add: knowsApp1_def)
  have i: "ID app1 = ''app1''"
    by (simp add: app1_def)
  from failed_fetch_drops_every_time [OF f k l, of exampleDeps] show ?thesis
    by (simp add: s i del: eventLoop.simps)
qed

text \<open>
  That the id is removed and that a second identical event sends nothing both fail: after
  the first event \<open>app1\<close> is still in the map, and the second event sends again. That
  one \<open>dropApp\<close> is sent for every such event fails as well: when the application
  definition of the event has no labels, the processor panics and sends nothing.
\<close>

theorem failed_fetch_counterexample:
  "Application goneClient ''app1'' = Inl ''not found'' \<and>
   containsApp knowsApp1 ''app1'' \<and>
   handleEvent exampleDeps goneClient (EventIDAPIRequest \<lparr>AppDefinition = app1\<rparr>) knowsApp1 =
     Returned \<lparr>apps = [''app1'' \<mapsto> app1Labels],
               sends = [dropApp \<lparr>AppInfo.AppId = ''app1'', Labels = app1Labels\<rparr>]\<rparr> \<and>
   handleEvent exampleDeps goneClient (EventIDAPIRequest \<lparr>AppDefinition = app1\<rparr>)
       \<lparr>apps = [''app1'' \<mapsto> app1Labels],
        sends = [dropApp \<lparr>AppInfo.AppId = ''app1'', Labels = app1Labels\<rparr>]\<rparr> =
     Returned \<lparr>apps = [''app1'' \<mapsto> app1Labels],
               sends = [dropApp \<lparr>AppInfo.AppId = ''app1'', Labels = app1Labels\<rparr>,
                        dropApp \<lparr>AppInfo.AppId = ''app1'', Labels = app1Labels\<rparr>]\<rparr> \<and>
   handleEvent exampleDeps goneClient (EventIDAPIRequest \<lparr>AppDefinition = unlabelledApp1\<rparr>)
       knowsApp1 =
     Panicked NilDereference knowsApp1 \<and>
   sends knowsApp1 = []"
  by (simp add: handleEvent_def goneClient_def containsApp_def knowsApp1_def app1_def send_def
      unlabelledApp1_def)

text \<open>
  C6. An API-request event whose fetch succeeds, on a provider that knows no
  application: exactly one \<open>appUpdate\<close> with the id and labels of the event is sent,
  but the known-apps map stays empty, so a later \<open>TASK_RUNNING\<close> update for the same
  application is ignored. The initial scan, for the same application, does record it.
\<close>

theorem fetched_app_is_not_recorded:
  "Application runningClient ''app1'' = Inr app1 \<and>
   handleEvent exampleDeps runningClient (EventIDAPIRequest \<lparr>AppDefinition = app1\<rparr>) freshProvider =
     Returned \<lparr>apps = Map.empty,
               sends = [appUpdate \<lparr>AppInfo.AppId = ''app1'', Labels = app1Labels\<rparr>]\<rparr> \<and>
   \<not> containsApp \<lparr>apps = Map.empty,
        sends = [appUpdate \<lparr>AppInfo.AppId = ''app1'', Labels = app1Labels\<rparr>]\<rparr> ''app1'' \<and>
   handleEvent exampleDeps runningClient (EventIDStatusUpdate (app1Update ''TASK_RUNNING''))
       \<lparr>apps = Map.empty,
        sends = [appUpdate \<lparr>AppInfo.AppId = ''app1'', Labels = app1Labels\<rparr>]\<rparr> =
     Returned \<lparr>apps = Map.empty,
               sends = [appUpdate \<lparr>AppInfo.AppId = ''app1'', Labels = app1Labels\<rparr>]\<rparr> \<and>
   scanAllApps exampleDeps runningClient freshProvider =
     Returned \<lparr>apps = [''app1'' \<mapsto> app1Labels],
               sends = [appUpdate \<lparr>AppInfo.AppId = ''app1'', Labels = app1Labels\<rparr>,
                        addBackend \<lparr>BackendInfo.AppId = ''app1'', Node = ''10.0.0.1:9000''\<rparr>]\<rparr>"
  by (simp add: handleEvent_def runningClient_def containsApp_def freshProvider_def app1_def
      send_def app1Update_def scanAllApps_def enabled_app1 createBackendInfo_def portIndexOf_def
      appApp_def index_app1 Sprintf_d_9000)

end
